theory Spec2Isabelle
  imports Main "HOL-Library.Sublist" "HOL-Library.Word"
begin

section \<open>Errors and console events\<close>

text \<open>
  Every \<^verbatim>\<open>throw new Error(msg)\<close> of the bot is \<open>Inl (Error msg)\<close>. A promise of an
  external service that rejects is \<open>Inl (Rejected msg)\<close>; the two exceptions the
  built-in \<^verbatim>\<open>BigInt\<close> raises are \<open>SyntaxError\<close> and \<open>TypeError\<close>.
\<close>

datatype error = Error string | Rejected string | SyntaxError | TypeError

section \<open>Market finder\<close>

text \<open>
  The GraphQL types come from \<^verbatim>\<open>./graphql\<close>, which the query of
  \<^verbatim>\<open>fetchNextClosingMarket\<close> fixes to the fields below: \<^verbatim>\<open>marketId\<close> and
  \<^verbatim>\<open>endTimestamp\<close> are GraphQL integers, every field the query may leave out is an
  option. The market group a market carries after the flattening holds the address only.

  A timestamp arrives as a JavaScript number. The integers from \<open>- 2^53\<close> to
  \<open>2^53 - 1\<close>, the signed reading \<open>sint\<close> of 54 bits, are the numbers that are
  consecutive exact integers; each of them prints as its plain decimal digits, without
  an exponent. A timestamp is one of these.
\<close>

type_synonym timestamp = "54 word"

datatype MarketGroupRef = MarketGroupRef (ref_address: "string option")

record MarketType =
  question :: "string option"
  marketId :: int
  endTimestamp :: "timestamp option"
  public :: "bool option"
  marketGroup :: "MarketGroupRef option"

record MarketGroupType =
  address :: "string option"
  markets :: "MarketType list option"

record ResponseData =
  marketGroups :: "MarketGroupType list option"

text \<open>A JavaScript number as the reducer meets it: an integer or \<^verbatim>\<open>Infinity\<close>.\<close>

datatype jsnum = Num int | Infinity

fun js_less :: "jsnum \<Rightarrow> jsnum \<Rightarrow> bool" where
  "js_less (Num a) (Num b) = (a < b)"
| "js_less (Num a) Infinity = True"
| "js_less Infinity y = False"

text \<open>
  \<^verbatim>\<open>m.endTimestamp ? parseInt(m.endTimestamp.toString()) : Infinity\<close>: the test is
  JavaScript truthiness, so both a missing timestamp and the number 0 take the
  \<^verbatim>\<open>Infinity\<close> branch; any other timestamp prints as its decimal digits, which
  \<^verbatim>\<open>parseInt\<close> reads back as the same integer.
\<close>

definition endTime :: "MarketType \<Rightarrow> jsnum" where
  "endTime m = (case endTimestamp m of
                  None \<Rightarrow> Infinity
                | Some t \<Rightarrow> if t = 0 then Infinity else Num (sint t))"

text \<open>The callback of \<^verbatim>\<open>reduce\<close>, started from \<^verbatim>\<open>null\<close>.\<close>

definition earlier :: "MarketType option \<Rightarrow> MarketType \<Rightarrow> MarketType option" where
  "earlier earliest market = (case earliest of
       None \<Rightarrow> Some market
     | Some e \<Rightarrow> if js_less (endTime market) (endTime e) then Some market else Some e)"

text \<open>
  The callback of \<^verbatim>\<open>flatMap\<close>: \<^verbatim>\<open>group.markets?.map(...) || []\<close>, each market
  spread into a new object with \<^verbatim>\<open>marketGroup: { address: group.address }\<close>.
\<close>

definition groupMarkets :: "MarketGroupType \<Rightarrow> MarketType list" where
  "groupMarkets g = (case markets g of
       None \<Rightarrow> []
     | Some ms \<Rightarrow> map (\<lambda>m. m\<lparr>marketGroup := Some (MarketGroupRef (address g))\<rparr>) ms)"

definition isPublic :: "MarketType \<Rightarrow> bool" where
  "isPublic m \<longleftrightarrow> public m = Some True"

definition publicMarkets :: "MarketGroupType list \<Rightarrow> MarketType list" where
  "publicMarkets gs = filter isPublic (concat (map groupMarkets gs))"

text \<open>
  The optional chain of lines 47-62: a missing response or a missing
  \<^verbatim>\<open>marketGroups\<close> short-circuits to \<^verbatim>\<open>undefined\<close>.
\<close>

definition nextMarket :: "ResponseData option \<Rightarrow> MarketType option" where
  "nextMarket responseData = (case responseData of
       None \<Rightarrow> None
     | Some d \<Rightarrow> (case marketGroups d of
         None \<Rightarrow> None
       | Some gs \<Rightarrow> foldl earlier None (publicMarkets gs)))"

text \<open>
  The reading of the specification, for comparison: a timestamp is an integer, a missing
  one counts as positive infinity, and the winner is the first of the candidates that no
  candidate undercuts.
\<close>

definition specTime :: "MarketType \<Rightarrow> jsnum" where
  "specTime m = (case endTimestamp m of None \<Rightarrow> Infinity | Some t \<Rightarrow> Num (sint t))"

definition firstMinimal :: "(MarketType \<Rightarrow> jsnum) \<Rightarrow> MarketType list \<Rightarrow> MarketType option" where
  "firstMinimal time ps = find (\<lambda>m. list_all (\<lambda>x. \<not> js_less (time x) (time m)) ps) ps"

definition noZeroTimestamp :: "MarketType list \<Rightarrow> bool" where
  "noZeroTimestamp ps \<longleftrightarrow> list_all (\<lambda>m. endTimestamp m \<noteq> Some 0) ps"


section \<open>Strings\<close>

text \<open>
  A string is a list of code units below 256 (ASCII and Latin-1). \<^verbatim>\<open>trim\<close> removes
  the white space and line terminators of that range from both ends;
  \<^verbatim>\<open>toLowerCase\<close> maps the capital letters of that range 32 places up.
\<close>

definition isWhiteSpace :: "char \<Rightarrow> bool" where
  "isWhiteSpace c \<longleftrightarrow> (of_char c :: nat) \<in> {9, 10, 11, 12, 13, 32, 160}"

definition trim :: "string \<Rightarrow> string" where
  "trim s = rev (dropWhile isWhiteSpace (rev (dropWhile isWhiteSpace s)))"

definition toLowerChar :: "char \<Rightarrow> char" where
  "toLowerChar c = (let n = of_char c :: nat in
     if (65 \<le> n \<and> n \<le> 90) \<or> (192 \<le> n \<and> n \<le> 222 \<and> n \<noteq> 215)
     then char_of (n + 32) else c)"

definition toLowerCase :: "string \<Rightarrow> string" where
  "toLowerCase s = map toLowerChar s"

text \<open>\<^verbatim>\<open>s.includes(sub)\<close>: \<open>sub\<close> occurs in \<open>s\<close> as a contiguous run.\<close>

fun includes_str :: "string \<Rightarrow> string \<Rightarrow> bool" where
  "includes_str [] sub = (sub = [])"
| "includes_str (c # cs) sub = (prefix sub (c # cs) \<or> includes_str cs sub)"

text \<open>\<^verbatim>\<open>n.toString()\<close> of a bigint: decimal digits, a minus sign when negative.\<close>

definition digitChar :: "nat \<Rightarrow> char" where
  "digitChar d = ''0123456789'' ! d"

fun natToString :: "nat \<Rightarrow> string" where
  "natToString n = (if n < 10 then [digitChar n]
                    else natToString (n div 10) @ [digitChar (n mod 10)])"

declare natToString.simps [simp del]

definition toString :: "int \<Rightarrow> string" where
  "toString i = (if i < 0 then ''-'' @ natToString (nat (- i)) else natToString (nat i))"

text \<open>
  A nullable GraphQL string in a template literal or in \<^verbatim>\<open>console.log\<close>: the string,
  or \<^verbatim>\<open>null\<close> when it is missing.
\<close>

definition showString :: "string option \<Rightarrow> string" where
  "showString s = (case s of None \<Rightarrow> ''null'' | Some v \<Rightarrow> v)"

text \<open>An environment variable counts as set when it is present and not empty.\<close>

definition truthy :: "string option \<Rightarrow> bool" where
  "truthy v = (case v of None \<Rightarrow> False | Some s \<Rightarrow> s \<noteq> [])"

section \<open>Library functions the bot imports\<close>

text \<open>
  \<^verbatim>\<open>parseEther('1')\<close>: one unit scaled by 18 decimals. It is both the wager and the
  value of a "yes".
\<close>

definition WAGER_AMOUNT :: int where
  "WAGER_AMOUNT = 10 ^ 18"

definition SUSDS_ADDRESS :: string where
  "SUSDS_ADDRESS = ''0x5875eEE11Cf8398102FdAd704C9E96607675467a''"

definition base_id :: nat where
  "base_id = 8453"

definition base_explorer_url :: string where
  "base_explorer_url = ''https://basescan.org''"

text \<open>
  \<^verbatim>\<open>formatUnits\<close> of viem, which \<^verbatim>\<open>formatEther\<close> calls with 18 decimals: the
  digits of the magnitude are padded on the left with zeros to \<open>decimals\<close> places and
  split \<open>decimals\<close> places from the right; the fraction loses its trailing zeros; the
  integer part is \<^verbatim>\<open>0\<close> when empty, and the point is written only before a fraction
  that is not empty.
\<close>

definition formatUnits :: "int \<Rightarrow> nat \<Rightarrow> string" where
  "formatUnits v decimals =
     (let negative = v < 0;
          digits = natToString (nat \<bar>v\<bar>);
          display = replicate (decimals - length digits) CHR ''0'' @ digits;
          integer = take (length display - decimals) display;
          fraction = drop (length display - decimals) display;
          fraction' = rev (dropWhile (\<lambda>c. c = CHR ''0'') (rev fraction))
      in (if negative then ''-'' else [])
         @ (if integer = [] then ''0'' else integer)
         @ (if fraction' = [] then [] else ''.'' @ fraction'))"

definition formatEther :: "int \<Rightarrow> string" where
  "formatEther wei = formatUnits wei 18"

text \<open>
  \<^verbatim>\<open>BigInt(s)\<close> on a string: white space is trimmed; the empty string is 0; a prefix
  \<^verbatim>\<open>0x\<close>, \<^verbatim>\<open>0o\<close> or \<^verbatim>\<open>0b\<close> (either case) selects the radix of an unsigned
  literal; otherwise the string is decimal digits after an optional sign. Anything else
  raises \<^verbatim>\<open>SyntaxError\<close>.
\<close>

definition digitValue :: "char \<Rightarrow> nat option" where
  "digitValue c = (let n = of_char c :: nat in
     if 48 \<le> n \<and> n \<le> 57 then Some (n - 48)
     else if 97 \<le> n \<and> n \<le> 102 then Some (n - 87)
     else if 65 \<le> n \<and> n \<le> 70 then Some (n - 55)
     else None)"

fun parseDigits :: "nat \<Rightarrow> nat \<Rightarrow> string \<Rightarrow> nat option" where
  "parseDigits radix acc [] = Some acc"
| "parseDigits radix acc (c # cs) = (case digitValue c of
       None \<Rightarrow> None
     | Some d \<Rightarrow> if d < radix then parseDigits radix (acc * radix + d) cs else None)"

definition parseNat :: "nat \<Rightarrow> string \<Rightarrow> error + int" where
  "parseNat radix ds = (if ds = [] then Inl SyntaxError
     else case parseDigits radix 0 ds of None \<Rightarrow> Inl SyntaxError | Some n \<Rightarrow> Inr (int n))"

definition negated :: "error + int \<Rightarrow> error + int" where
  "negated r = (case r of Inl e \<Rightarrow> Inl e | Inr n \<Rightarrow> Inr (- n))"

fun stringToBigInt :: "string \<Rightarrow> error + int" where
  "stringToBigInt [] = Inr 0"
| "stringToBigInt (c # cs) =
     (if c = CHR ''0'' \<and> cs \<noteq> [] \<and> hd cs \<in> {CHR ''x'', CHR ''X''} then parseNat 16 (tl cs)
      else if c = CHR ''0'' \<and> cs \<noteq> [] \<and> hd cs \<in> {CHR ''o'', CHR ''O''} then parseNat 8 (tl cs)
      else if c = CHR ''0'' \<and> cs \<noteq> [] \<and> hd cs \<in> {CHR ''b'', CHR ''B''} then parseNat 2 (tl cs)
      else if c = CHR ''+'' then parseNat 10 cs
      else if c = CHR ''-'' then negated (parseNat 10 cs)
      else parseNat 10 (c # cs))"

definition BigInt :: "string \<Rightarrow> error + int" where
  "BigInt s = stringToBigInt (trim s)"

section \<open>Effects\<close>

text \<open>
  What the bot does to the outside, in order: console output, and one event for every
  request it sends (the GraphQL query, the chat completion, the quoter fetch, a contract
  write, the wait for a receipt).
\<close>

datatype ContractCall =
    Approve string "string option" int
  | CreateTraderPosition "string option" int int int int

datatype event =
    ConsoleLog string
  | ConsoleError string
  | ConsoleGroup string
  | ConsoleGroupEnd
  | GraphQLRequest
  | ChatCompletion "string option"
  | Fetch string
  | WriteContract string ContractCall
  | WaitForTransactionReceipt string

fun onChain :: "event \<Rightarrow> bool" where
  "onChain (WriteContract account call) = True"
| "onChain (WaitForTransactionReceipt hash) = True"
| "onChain e = False"

fun isChatCompletion :: "event \<Rightarrow> bool" where
  "isChatCompletion (ChatCompletion q) = True"
| "isChatCompletion e = False"

text \<open>
  An asynchronous function is its trace of events with its outcome; \<open>andThen\<close> is
  \<^verbatim>\<open>await\<close> followed by the rest of the body, which a thrown error skips.
\<close>

type_synonym 'a io = "event list \<times> (error + 'a)"

definition ret :: "'a \<Rightarrow> 'a io" where
  "ret x = ([], Inr x)"

definition throw :: "error \<Rightarrow> 'a io" where
  "throw e = ([], Inl e)"

definition emit :: "event list \<Rightarrow> unit io" where
  "emit es = (es, Inr ())"

definition await :: "event \<Rightarrow> error + 'a \<Rightarrow> 'a io" where
  "await e outcome = ([e], outcome)"

definition andThen :: "'a io \<Rightarrow> ('a \<Rightarrow> 'b io) \<Rightarrow> 'b io" where
  "andThen m f = (case m of
       (es, Inl e) \<Rightarrow> (es, Inl e)
     | (es, Inr x) \<Rightarrow> (case f x of (es', r) \<Rightarrow> (es @ es', r)))"

text \<open>
  The environment and the services the bot talks to. Each service is the outcome of the
  awaited call for the arguments it is given; \<open>now\<close> is \<^verbatim>\<open>Math.floor(Date.now() / 1000)\<close>.
\<close>

record Quote =
  maxSize :: string

record Response =
  ok :: bool
  status :: nat
  text_body :: string
  json :: "error + Quote"

record world =
  OPENAI_API_KEY :: "string option"
  ETHEREUM_PRIVATE_KEY :: "string option"
  request :: "error + ResponseData option"
  chatCompletion :: "string option \<Rightarrow> error + string option"
  fetch :: "string \<Rightarrow> error + Response"
  privateKeyToAccount :: "string \<Rightarrow> error + string"
  writeContract :: "string \<Rightarrow> ContractCall \<Rightarrow> error + string"
  waitForTransactionReceipt :: "string \<Rightarrow> error + unit"
  now :: int

section \<open>Market finder: the request\<close>

text \<open>
  \<^verbatim>\<open>fetchNextClosingMarket\<close>: the awaited GraphQL request, then the selection; no
  selected market is the error of line 65.
\<close>

definition fetchNextClosingMarket :: "world \<Rightarrow> MarketType io" where
  "fetchNextClosingMarket w =
     andThen (await GraphQLRequest (request w)) (\<lambda>responseData.
       case nextMarket responseData of
         None \<Rightarrow> throw (Error ''No active markets found.'')
       | Some m \<Rightarrow> ret m)"

section \<open>Predictor\<close>

text \<open>Lines 104-118: the answer is trimmed and lower-cased, then searched.\<close>

definition parsePrediction :: "string \<Rightarrow> error + int" where
  \<open>parsePrediction content =
     (let answer = toLowerCase (trim content) in
      if includes_str answer ''yes'' then Inr WAGER_AMOUNT
      else if includes_str answer ''no'' then Inr 0
      else Inl (Error ''Couldn't parse a prediction''))\<close>

text \<open>
  The chat completion yields \<open>Inr (Some content)\<close> when the first choice's content is a
  string, \<open>Inr None\<close> when it is not, and \<open>Inl\<close> when the call itself fails.
\<close>

definition getPrediction :: "world \<Rightarrow> string option \<Rightarrow> int io" where
  \<open>getPrediction w question' =
     (if \<not> truthy (OPENAI_API_KEY w)
      then andThen (emit [ConsoleLog ''OpenAI API key not found. Defaulting to "Yes".''])
             (\<lambda>_. ret WAGER_AMOUNT)
      else andThen (await (ChatCompletion question') (chatCompletion w question'))
             (\<lambda>content. case content of
                None \<Rightarrow> andThen (emit [ConsoleError ''Invalid response structure from OpenAI API:''])
                          (\<lambda>_. throw (Error ''Failed to get a valid response from OpenAI API.''))
              | Some c \<Rightarrow> andThen (emit [ConsoleLog c]) (\<lambda>_. ([], parsePrediction c))))\<close>

section \<open>Quoter\<close>

definition expectedPriceDecimalString :: "int \<Rightarrow> string" where
  "expectedPriceDecimalString prediction =
     (if prediction = 0 then ''0.0000009'' else formatEther prediction)"

definition quoterUrl :: "string option \<Rightarrow> int \<Rightarrow> int \<Rightarrow> string" where
  "quoterUrl marketAddress marketId' prediction =
     ''https://api.sapience.xyz/quoter/'' @ natToString base_id @ ''/''
       @ showString marketAddress @ ''/''
       @ toString marketId' @ ''?collateralAvailable='' @ toString WAGER_AMOUNT
       @ ''&expectedPrice='' @ expectedPriceDecimalString prediction"

definition quoterFailure :: "Response \<Rightarrow> string" where
  "quoterFailure response =
     ''Quoter API request failed with status '' @ natToString (status response)
       @ '': '' @ text_body response"

definition getQuote :: "world \<Rightarrow> string option \<Rightarrow> int \<Rightarrow> int \<Rightarrow> int io" where
  "getQuote w marketAddress marketId' prediction =
     (let url = quoterUrl marketAddress marketId' prediction in
      andThen (await (Fetch url) (fetch w url))
        (\<lambda>response.
           if \<not> ok response
           then andThen (emit [ConsoleError (quoterFailure response)])
                  (\<lambda>_. throw (Error (quoterFailure response)))
           else andThen ([], json response)
                  (\<lambda>quote. ([], BigInt (maxSize quote)))))"

section \<open>Trader\<close>

definition afterKey :: "world \<Rightarrow> string \<Rightarrow> string option \<Rightarrow> int \<Rightarrow> int \<Rightarrow> unit io" where
  "afterKey w key marketAddress marketId' positionSize =
     andThen ([], privateKeyToAccount w key) (\<lambda>account.
     andThen (emit [ConsoleLog ''Approving token spend...'']) (\<lambda>_.
     andThen (await (WriteContract account (Approve SUSDS_ADDRESS marketAddress WAGER_AMOUNT))
                (writeContract w account (Approve SUSDS_ADDRESS marketAddress WAGER_AMOUNT)))
       (\<lambda>approveHash.
     andThen (await (WaitForTransactionReceipt approveHash)
                (waitForTransactionReceipt w approveHash)) (\<lambda>_.
     andThen (emit [ConsoleLog ''Creating trader position...'']) (\<lambda>_.
     andThen (await (WriteContract account
                  (CreateTraderPosition marketAddress marketId' positionSize WAGER_AMOUNT
                     (now w + 60 * 60)))
                (writeContract w account
                  (CreateTraderPosition marketAddress marketId' positionSize WAGER_AMOUNT
                     (now w + 60 * 60))))
       (\<lambda>tradeHash.
     andThen (await (WaitForTransactionReceipt tradeHash)
                (waitForTransactionReceipt w tradeHash)) (\<lambda>_.
     emit [ConsoleLog [], ConsoleLog ''Success!'',
           ConsoleLog (base_explorer_url @ ''/tx/'' @ tradeHash)])))))))"

text \<open>
  \<^verbatim>\<open>trade\<close>: line 148 throws on a key that is unset or empty; \<open>afterKey\<close> above is
  the rest of the body, lines 151-189.
\<close>

definition trade :: "world \<Rightarrow> string option \<Rightarrow> int \<Rightarrow> int \<Rightarrow> unit io" where
  "trade w marketAddress marketId' positionSize =
     (case ETHEREUM_PRIVATE_KEY w of
        None \<Rightarrow> throw (Error ''Ethereum private key is not set in environment variables.'')
      | Some key \<Rightarrow>
          if key = []
          then throw (Error ''Ethereum private key is not set in environment variables.'')
          else afterKey w key marketAddress marketId' positionSize)"

section \<open>The program\<close>

text \<open>
  The body of the top-level function. \<^verbatim>\<open>market.marketGroup!.address!\<close> raises a
  \<^verbatim>\<open>TypeError\<close> on a market without a group and passes a missing address on.
\<close>

definition submitOrReport :: "world \<Rightarrow> string option \<Rightarrow> int \<Rightarrow> int \<Rightarrow> unit io" where
  "submitOrReport w marketGroupAddress marketId' positionSize =
     (if truthy (ETHEREUM_PRIVATE_KEY w)
      then andThen (emit [ConsoleGroup (''Submitting trade with a size of ''
                            @ formatEther positionSize @ ''...''), ConsoleLog []])
             (\<lambda>_. andThen (trade w marketGroupAddress marketId' positionSize)
             (\<lambda>_. emit [ConsoleGroupEnd, ConsoleLog []]))
      else emit [ConsoleLog (''Trade Size: '' @ formatEther positionSize),
                 ConsoleLog ''Add an Ethereum private key to your .env file to submit trades.'',
                 ConsoleLog []])"

definition main :: "world \<Rightarrow> unit io" where
  \<open>main w =
     andThen (fetchNextClosingMarket w) (\<lambda>market.
     andThen (emit [ConsoleGroup ''Found an active market...'', ConsoleLog [],
                    ConsoleLog (showString (question market)), ConsoleGroupEnd, ConsoleLog [],
                    ConsoleGroup ''Asking ChatGPT for an answer...'', ConsoleLog []]) (\<lambda>_.
     andThen (getPrediction w (question market)) (\<lambda>prediction.
     andThen (emit [ConsoleGroupEnd, ConsoleLog [],
                    ConsoleLog (''Retrieving a quote for a $1 wager on market outcome "''
                                  @ toString prediction @ ''"...''), ConsoleLog []]) (\<lambda>_.
     andThen (case marketGroup market of
                None \<Rightarrow> throw TypeError
              | Some g \<Rightarrow> ret (ref_address g)) (\<lambda>marketGroupAddress.
     andThen (getQuote w marketGroupAddress (marketId market) prediction) (\<lambda>positionSize.
     andThen (submitOrReport w marketGroupAddress (marketId market) positionSize) (\<lambda>_.
     emit [ConsoleLog ''Done!''])))))))\<close>

text \<open>The top level: \<^verbatim>\<open>.catch(console.error)\<close> prints whatever the body threw.\<close>

definition describe :: "error \<Rightarrow> string" where
  "describe e = (case e of
       Error msg \<Rightarrow> msg
     | Rejected msg \<Rightarrow> msg
     | SyntaxError \<Rightarrow> ''SyntaxError''
     | TypeError \<Rightarrow> ''TypeError'')"

definition program :: "world \<Rightarrow> event list" where
  "program w = (case main w of
       (es, Inl e) \<Rightarrow> es @ [ConsoleError (describe e)]
     | (es, Inr u) \<Rightarrow> es)"

section \<open>Example inputs\<close>

text \<open>
  A market of the response, and a world whose GraphQL service answers with one market group
  at address \<^verbatim>\<open>0xA\<close> holding the given markets. Its other services succeed: the model
  answers \<^verbatim>\<open>Yes\<close> and the quoter offers half a unit.
\<close>

definition market :: "int \<Rightarrow> timestamp option \<Rightarrow> bool option \<Rightarrow> MarketType" where
  "market i t p = \<lparr>question = Some ''Will it rain?'', marketId = i, endTimestamp = t,
                   public = p, marketGroup = None\<rparr>"

definition listed :: "MarketType \<Rightarrow> MarketType" where
  "listed m = m\<lparr>marketGroup := Some (MarketGroupRef (Some ''0xA''))\<rparr>"

definition groupsOf :: "MarketType list \<Rightarrow> MarketGroupType list" where
  "groupsOf ms = [\<lparr>address = Some ''0xA'', markets = Some ms\<rparr>]"

definition worldWith :: "MarketType list \<Rightarrow> world" where
  "worldWith ms =
     \<lparr>OPENAI_API_KEY = None,
      ETHEREUM_PRIVATE_KEY = None,
      request = Inr (Some \<lparr>marketGroups = Some (groupsOf ms)\<rparr>),
      chatCompletion = (\<lambda>q. Inr (Some ''Yes'')),
      fetch = (\<lambda>url. Inr \<lparr>ok = True, status = 200, text_body = [],
                            json = Inr \<lparr>maxSize = ''500000000000000000''\<rparr>\<rparr>),
      privateKeyToAccount = (\<lambda>key. Inr ''0xACC''),
      writeContract = (\<lambda>account call. Inr ''0xTX''),
      waitForTransactionReceipt = (\<lambda>hash. Inr ()),
      now = 1700000000\<rparr>"

text \<open>A world with a model credential whose model replies with the given text.\<close>

definition answering :: "string \<Rightarrow> world" where
  "answering reply = (worldWith [])\<lparr>OPENAI_API_KEY := Some ''sk-test'',
                                     chatCompletion := (\<lambda>q. Inr (Some reply))\<rparr>"

text \<open>A world whose quoter answers successfully with the given \<^verbatim>\<open>maxSize\<close>.\<close>

definition quoting :: "string \<Rightarrow> world" where
  "quoting offered = (worldWith [])\<lparr>fetch := (\<lambda>url. Inr \<lparr>ok = True, status = 200, text_body = [],
                                                         json = Inr \<lparr>maxSize = offered\<rparr>\<rparr>)\<rparr>"

section \<open>The reducer keeps the first minimal market\<close>

lemma js_less_irrefl: "\<not> js_less a a"
  by (cases a) auto

lemma js_less_trans: "js_less a b \<Longrightarrow> js_less b c \<Longrightarrow> js_less a c"
  by (cases a; cases b; cases c) auto

lemma js_less_asym: "js_less a b \<Longrightarrow> \<not> js_less b a"
  by (cases a; cases b) auto

lemma js_less_negtrans: "js_less a b \<Longrightarrow> \<not> js_less c b \<Longrightarrow> js_less a c"
  by (cases a; cases b; cases c) auto

text \<open>The scan keeps the first market that nothing undercuts.\<close>

lemma foldl_earlier_split:
  "ps \<noteq> [] \<Longrightarrow> \<exists>pre m post. foldl earlier None ps = Some m \<and> ps = pre @ m # post
      \<and> (\<forall>x \<in> set pre. js_less (endTime m) (endTime x))
      \<and> (\<forall>x \<in> set post. \<not> js_less (endTime x) (endTime m))"
proof (induction ps rule: rev_induct)
  case Nil
  then show ?case by simp
next
  case (snoc x ps)
  show ?case
  proof (cases "ps = []")
    case True
    then have "foldl earlier None (ps @ [x]) = Some x \<and> ps @ [x] = [] @ x # []"
      by (simp add: earlier_def)
    then show ?thesis by fastforce
  next
    case False
    from snoc.IH [OF False] obtain pre m post where
      f: "foldl earlier None ps = Some m" and s: "ps = pre @ m # post"
      and b: "\<forall>y \<in> set pre. js_less (endTime m) (endTime y)"
      and a: "\<forall>y \<in> set post. \<not> js_less (endTime y) (endTime m)"
      by blast
    show ?thesis
    proof (cases "js_less (endTime x) (endTime m)")
      case True
      have r: "foldl earlier None (ps @ [x]) = Some x"
        using f True by (simp add: earlier_def)
      have "\<forall>y \<in> set ps. js_less (endTime x) (endTime y)"
      proof
        fix y assume "y \<in> set ps"
        then consider "y \<in> set pre" | "y = m" | "y \<in> set post" using s by auto
        then show "js_less (endTime x) (endTime y)"
        proof cases
          case 1 then show ?thesis using b True js_less_trans by blast
        next
          case 2 then show ?thesis using True by simp
        next
          case 3 then show ?thesis using a True js_less_negtrans by blast
        qed
      qed
      then have "foldl earlier None (ps @ [x]) = Some x \<and> ps @ [x] = ps @ x # []
          \<and> (\<forall>y \<in> set ps. js_less (endTime x) (endTime y))
          \<and> (\<forall>y \<in> set []. \<not> js_less (endTime y) (endTime x))"
        using r by simp
      then show ?thesis by blast
    next
      case False
      have r: "foldl earlier None (ps @ [x]) = Some m"
        using f False by (simp add: earlier_def)
      have "ps @ [x] = pre @ m # (post @ [x])" using s by simp
      moreover have "\<forall>y \<in> set (post @ [x]). \<not> js_less (endTime y) (endTime m)"
        using a False by auto
      ultimately show ?thesis using r b by blast
    qed
  qed
qed

lemma find_split:
  assumes "\<forall>x \<in> set pre. \<not> P x" and "P m"
  shows "find P (pre @ m # post) = Some m"
  using assms by (induction pre) auto

lemma firstMinimal_split:
  assumes b: "\<forall>x \<in> set pre. js_less (time m) (time x)"
      and a: "\<forall>x \<in> set post. \<not> js_less (time x) (time m)"
  shows "firstMinimal time (pre @ m # post) = Some m"
  unfolding firstMinimal_def
proof (rule find_split)
  show "\<forall>x\<in>set pre. \<not> list_all (\<lambda>y. \<not> js_less (time y) (time x)) (pre @ m # post)"
    using b by (auto simp: list_all_iff)
  show "list_all (\<lambda>x. \<not> js_less (time x) (time m)) (pre @ m # post)"
    using a b js_less_asym js_less_irrefl by (auto simp: list_all_iff)
qed

lemma foldl_earlier_firstMinimal: "foldl earlier None ps = firstMinimal endTime ps"
proof (cases "ps = []")
  case True
  then show ?thesis by (simp add: firstMinimal_def)
next
  case False
  from foldl_earlier_split [OF False] show ?thesis
    using firstMinimal_split [where time = endTime] by metis
qed

lemma endTime_specTime: "endTimestamp m \<noteq> Some 0 \<Longrightarrow> endTime m = specTime m"
  by (auto simp: endTime_def specTime_def split: option.splits)

lemma firstMinimal_cong:
  "\<forall>x \<in> set ps. f x = g x \<Longrightarrow> firstMinimal f ps = firstMinimal g ps"
  unfolding firstMinimal_def
  by (rule find_cong) (auto simp: list_all_iff)

section \<open>Claims about the market finder\<close>

lemma nextMarket_firstMinimal:
  "marketGroups d = Some gs \<Longrightarrow> nextMarket (Some d) = firstMinimal endTime (publicMarkets gs)"
  by (simp add: nextMarket_def foldl_earlier_firstMinimal)

lemma fetch_result:
  "request w = Inr r \<Longrightarrow>
   snd (fetchNextClosingMarket w) =
     (case nextMarket r of None \<Rightarrow> Inl (Error ''No active markets found.'') | Some m \<Rightarrow> Inr m)"
  by (simp add: fetchNextClosingMarket_def andThen_def await_def throw_def ret_def
           split: option.splits)

lemma firstMinimal_in_set: "firstMinimal time ps = Some m \<Longrightarrow> m \<in> set ps"
  by (auto simp: firstMinimal_def find_Some_iff)

lemma publicMarkets_isPublic: "m \<in> set (publicMarkets gs) \<Longrightarrow> isPublic m"
  by (simp add: publicMarkets_def)

text \<open>
  Where no public market carries the timestamp 0, the scan does what the comment on line
  46 announces: the finder returns the first public market that no public market
  undercuts in end timestamp, a missing timestamp counting as positive infinity, and it
  fails when there is no public market. Whatever it returns is one of the public markets.
\<close>

lemma earliest_public_apart_from_zero:
  assumes "request w = Inr (Some d)" and "marketGroups d = Some gs"
      and "noZeroTimestamp (publicMarkets gs)"
  shows "snd (fetchNextClosingMarket w) =
           (case firstMinimal specTime (publicMarkets gs) of
              None \<Rightarrow> Inl (Error ''No active markets found.'')
            | Some m \<Rightarrow> Inr m)
         \<and> (\<forall>m. snd (fetchNextClosingMarket w) = Inr m \<longrightarrow> m \<in> set (publicMarkets gs) \<and> isPublic m)"
proof -
  have "\<forall>x \<in> set (publicMarkets gs). endTime x = specTime x"
    using assms(3) by (simp add: noZeroTimestamp_def list_all_iff endTime_specTime)
  then have eq: "firstMinimal endTime (publicMarkets gs) = firstMinimal specTime (publicMarkets gs)"
    by (rule firstMinimal_cong)
  have res: "snd (fetchNextClosingMarket w) =
           (case firstMinimal specTime (publicMarkets gs) of
              None \<Rightarrow> Inl (Error ''No active markets found.'')
            | Some m \<Rightarrow> Inr m)"
    using fetch_result [OF assms(1)] nextMarket_firstMinimal [OF assms(2)] eq by simp
  have "\<forall>m. snd (fetchNextClosingMarket w) = Inr m \<longrightarrow> m \<in> set (publicMarkets gs) \<and> isPublic m"
    using res by (auto split: option.splits dest!: firstMinimal_in_set
                    intro: publicMarkets_isPublic)
  with res show ?thesis by blast
qed

text \<open>
  The example of the specification: private at 100, public at 200, public at 150; the
  market at 150 is returned.
\<close>

lemma earliest_public_example:
  "request (worldWith [market 1 (Some 100) (Some False), market 2 (Some 200) (Some True),
                       market 3 (Some 150) (Some True)])
     = Inr (Some \<lparr>marketGroups = Some (groupsOf [market 1 (Some 100) (Some False),
                       market 2 (Some 200) (Some True), market 3 (Some 150) (Some True)])\<rparr>)
   \<and> noZeroTimestamp (publicMarkets (groupsOf [market 1 (Some 100) (Some False),
                       market 2 (Some 200) (Some True), market 3 (Some 150) (Some True)]))
   \<and> snd (fetchNextClosingMarket (worldWith [market 1 (Some 100) (Some False),
                       market 2 (Some 200) (Some True), market 3 (Some 150) (Some True)]))
     = Inr (listed (market 3 (Some 150) (Some True)))"
proof -
  let ?ms = "[market 1 (Some 100) (Some False), market 2 (Some 200) (Some True),
              market 3 (Some 150) (Some True)]"
  have r: "request (worldWith ?ms) = Inr (Some \<lparr>marketGroups = Some (groupsOf ?ms)\<rparr>)"
    by (simp add: worldWith_def)
  have g: "marketGroups \<lparr>marketGroups = Some (groupsOf ?ms)\<rparr> = Some (groupsOf ?ms)"
    by simp
  have p: "publicMarkets (groupsOf ?ms)
             = [listed (market 2 (Some 200) (Some True)), listed (market 3 (Some 150) (Some True))]"
    by (simp add: publicMarkets_def groupsOf_def groupMarkets_def isPublic_def market_def
                  listed_def)
  have z: "noZeroTimestamp (publicMarkets (groupsOf ?ms))"
    unfolding p by (simp add: noZeroTimestamp_def market_def listed_def)
  have f: "firstMinimal specTime (publicMarkets (groupsOf ?ms))
             = Some (listed (market 3 (Some 150) (Some True)))"
    unfolding p by (simp add: firstMinimal_def specTime_def market_def listed_def)
  from earliest_public_apart_from_zero [OF r g z] r z f show ?thesis
    by simp
qed


text \<open>
  Claim C2. A response whose flattened markets hold no public market, be it because
  there is no market at all or because every market is private, makes the finder fail
  with the error "No active markets found." instead of returning a market.
\<close>

theorem fetchNextClosingMarket_no_public_market:
  assumes "request w = Inr (Some d)" and "marketGroups d = Some gs"
      and "publicMarkets gs = []"
  shows "snd (fetchNextClosingMarket w) = Inl (Error ''No active markets found.'')"
  using fetch_result [OF assms(1)] assms(2,3) by (simp add: nextMarket_def)

theorem fetchNextClosingMarket_no_public_market_witness:
  "publicMarkets (groupsOf []) = []
   \<and> snd (fetchNextClosingMarket (worldWith [])) = Inl (Error ''No active markets found.'')
   \<and> publicMarkets (groupsOf [market 1 (Some 100) (Some False), market 2 (Some 200) None]) = []
   \<and> snd (fetchNextClosingMarket
             (worldWith [market 1 (Some 100) (Some False), market 2 (Some 200) None]))
       = Inl (Error ''No active markets found.'')"
proof -
  have r: "request (worldWith ms) = Inr (Some \<lparr>marketGroups = Some (groupsOf ms)\<rparr>)" for ms
    by (simp add: worldWith_def)
  have g: "marketGroups \<lparr>marketGroups = Some (groupsOf ms)\<rparr> = Some (groupsOf ms)" for ms
    by simp
  have e: "publicMarkets (groupsOf []) = []"
    by (simp add: publicMarkets_def groupsOf_def groupMarkets_def)
  have p: "publicMarkets (groupsOf [market 1 (Some 100) (Some False), market 2 (Some 200) None])
             = []"
    by (simp add: publicMarkets_def groupsOf_def groupMarkets_def isPublic_def market_def)
  from fetchNextClosingMarket_no_public_market [OF r g e]
       fetchNextClosingMarket_no_public_market [OF r g p] e p
  show ?thesis by simp
qed

lemma endTime_Infinity_iff:
  "endTime m = Infinity \<longleftrightarrow> endTimestamp m = None \<or> endTimestamp m = Some 0"
  by (auto simp: endTime_def split: option.splits)

lemma not_js_less_Infinity: "\<not> js_less t Infinity \<longleftrightarrow> t = Infinity"
  by (cases t) auto

text \<open>
  A public market without an end timestamp is compared as positive infinity. Where no
  public market carries the timestamp 0, such a market is returned only if every public
  market lacks a timestamp, and it is then the first public market met.
\<close>

lemma missing_timestamp_apart_from_zero:
  assumes "request w = Inr (Some d)" and "marketGroups d = Some gs"
      and "noZeroTimestamp (publicMarkets gs)"
      and "snd (fetchNextClosingMarket w) = Inr m" and "endTimestamp m = None"
  shows "endTime m = Infinity
         \<and> list_all (\<lambda>x. endTimestamp x = None) (publicMarkets gs)
         \<and> (\<exists>rest. publicMarkets gs = m # rest)"
proof -
  have inf: "endTime m = Infinity"
    using assms(5) by (simp add: endTime_def)
  have nm: "nextMarket (Some d) = Some m"
    using fetch_result [OF assms(1)] assms(4) by (auto split: option.splits)
  then have fm: "foldl earlier None (publicMarkets gs) = Some m"
    using assms(2) by (simp add: nextMarket_def)
  then have "publicMarkets gs \<noteq> []" by auto
  from foldl_earlier_split [OF this] fm obtain pre post where
    s: "publicMarkets gs = pre @ m # post"
    and b: "\<forall>x \<in> set pre. js_less (endTime m) (endTime x)"
    and a: "\<forall>x \<in> set post. \<not> js_less (endTime x) (endTime m)"
    by auto
  have pre: "pre = []"
  proof (cases pre)
    case Nil then show ?thesis .
  next
    case (Cons x xs)
    then have "js_less (endTime m) (endTime x)" using b by simp
    then show ?thesis using inf by simp
  qed
  have "\<forall>x \<in> set post. endTime x = Infinity"
    using a inf by (simp add: not_js_less_Infinity)
  then have "\<forall>x \<in> set post. endTimestamp x = None"
    using assms(3) s by (auto simp: endTime_Infinity_iff noZeroTimestamp_def list_all_iff)
  then have "list_all (\<lambda>x. endTimestamp x = None) (publicMarkets gs)"
    using s pre assms(5) by (simp add: list_all_iff)
  then show ?thesis using inf s pre by simp
qed

lemma missing_timestamp_example:
  "noZeroTimestamp (publicMarkets (groupsOf [market 1 None (Some True), market 2 None (Some True)]))
   \<and> snd (fetchNextClosingMarket (worldWith [market 1 None (Some True), market 2 None (Some True)]))
       = Inr (listed (market 1 None (Some True)))
   \<and> endTimestamp (listed (market 1 None (Some True))) = None
   \<and> endTime (listed (market 1 None (Some True))) = Infinity
   \<and> list_all (\<lambda>x. endTimestamp x = None)
        (publicMarkets (groupsOf [market 1 None (Some True), market 2 None (Some True)]))
   \<and> publicMarkets (groupsOf [market 1 None (Some True), market 2 None (Some True)])
       = [listed (market 1 None (Some True)), listed (market 2 None (Some True))]"
proof -
  let ?ms = "[market 1 None (Some True), market 2 None (Some True)]"
  have r: "request (worldWith ?ms) = Inr (Some \<lparr>marketGroups = Some (groupsOf ?ms)\<rparr>)"
    by (simp add: worldWith_def)
  have g: "marketGroups \<lparr>marketGroups = Some (groupsOf ?ms)\<rparr> = Some (groupsOf ?ms)"
    by simp
  have p: "publicMarkets (groupsOf ?ms)
             = [listed (market 1 None (Some True)), listed (market 2 None (Some True))]"
    by (simp add: publicMarkets_def groupsOf_def groupMarkets_def isPublic_def market_def
                  listed_def)
  have z: "noZeroTimestamp (publicMarkets (groupsOf ?ms))"
    unfolding p by (simp add: noZeroTimestamp_def market_def listed_def)
  have f: "snd (fetchNextClosingMarket (worldWith ?ms)) = Inr (listed (market 1 None (Some True)))"
    by (simp add: fetchNextClosingMarket_def andThen_def await_def throw_def ret_def
        nextMarket_def worldWith_def publicMarkets_def groupsOf_def groupMarkets_def
        isPublic_def market_def listed_def earlier_def endTime_def)
  have n: "endTimestamp (listed (market 1 None (Some True))) = None"
    by (simp add: market_def listed_def)
  from missing_timestamp_apart_from_zero [OF r g z f n] z f n p show ?thesis
    by simp
qed


section \<open>Facts about the string functions\<close>

lemma includes_str_sublist: "includes_str s sub \<longleftrightarrow> sublist sub s"
  by (induction s) (simp_all add: sublist_Cons_right)

lemma isWhiteSpace_toLowerChar: "isWhiteSpace (toLowerChar c) = isWhiteSpace c"
proof -
  have b: "(of_char c :: nat) < 256" by simp
  show ?thesis
    using b unfolding isWhiteSpace_def toLowerChar_def Let_def
    by (auto simp: mod_if)
qed

lemma toLowerCase_trim: "toLowerCase (trim s) = trim (toLowerCase s)"
proof -
  have c: "isWhiteSpace \<circ> toLowerChar = isWhiteSpace"
    by (rule ext) (simp add: isWhiteSpace_toLowerChar)
  show ?thesis
    by (simp add: toLowerCase_def trim_def dropWhile_map rev_map c)
qed

lemma sublist_dropWhile_iff:
  assumes "sub \<noteq> []" and "\<not> P (hd sub)"
  shows "sublist sub (dropWhile P s) \<longleftrightarrow> sublist sub s"
proof (induction s)
  case Nil
  show ?case by simp
next
  case (Cons c cs)
  show ?case
  proof (cases "P c")
    case True
    then have "\<not> prefix sub (c # cs)"
      using assms by (cases sub) auto
    then show ?thesis using True Cons by (simp add: sublist_Cons_right)
  next
    case False
    then show ?thesis by simp
  qed
qed

lemma sublist_trim_iff:
  assumes "sub \<noteq> []" and "\<not> isWhiteSpace (hd sub)" and "\<not> isWhiteSpace (last sub)"
  shows "sublist sub (trim s) \<longleftrightarrow> sublist sub s"
proof -
  have "sublist sub (trim s) \<longleftrightarrow> sublist (rev sub) (dropWhile isWhiteSpace (rev (dropWhile isWhiteSpace s)))"
    by (simp add: trim_def sublist_rev_right)
  also have "\<dots> \<longleftrightarrow> sublist (rev sub) (rev (dropWhile isWhiteSpace s))"
    using assms by (intro sublist_dropWhile_iff) (simp_all add: hd_rev)
  also have "\<dots> \<longleftrightarrow> sublist sub (dropWhile isWhiteSpace s)"
    by simp
  also have "\<dots> \<longleftrightarrow> sublist sub s"
    using assms by (intro sublist_dropWhile_iff)
  finally show ?thesis .
qed

lemma includes_yes: "includes_str (toLowerCase (trim s)) ''yes'' \<longleftrightarrow> sublist ''yes'' (toLowerCase s)"
  by (simp add: includes_str_sublist toLowerCase_trim sublist_trim_iff isWhiteSpace_def)

lemma includes_no: "includes_str (toLowerCase (trim s)) ''no'' \<longleftrightarrow> sublist ''no'' (toLowerCase s)"
  by (simp add: includes_str_sublist toLowerCase_trim sublist_trim_iff isWhiteSpace_def)

lemma parsePrediction_spec:
  "parsePrediction content =
     (if sublist ''yes'' (toLowerCase content) then Inr (10 ^ 18)
      else if sublist ''no'' (toLowerCase content) then Inr 0
      else Inl (Error ''Couldn't parse a prediction''))"
  unfolding parsePrediction_def Let_def includes_yes includes_no WAGER_AMOUNT_def by simp

lemma getPrediction_answered:
  "truthy (OPENAI_API_KEY w) \<Longrightarrow> chatCompletion w q = Inr (Some content) \<Longrightarrow>
   getPrediction w q = ([ChatCompletion q, ConsoleLog content], parsePrediction content)"
  by (simp add: getPrediction_def andThen_def await_def emit_def)

section \<open>Claims about the predictor\<close>

text \<open>
  Claim C3. With a credential configured and a textual reply, the predictor trims and
  lower-cases the reply; a reply that contains "yes" gives the full unit 10^18,
  otherwise one that contains "no" gives 0, otherwise the parse error is raised.
\<close>

theorem getPrediction_parses_reply:
  assumes "truthy (OPENAI_API_KEY w)" and "chatCompletion w q = Inr (Some content)"
  shows "snd (getPrediction w q) =
           (if sublist ''yes'' (toLowerCase (trim content)) then Inr (10 ^ 18)
            else if sublist ''no'' (toLowerCase (trim content)) then Inr 0
            else Inl (Error ''Couldn't parse a prediction''))"
  using getPrediction_answered [OF assms]
  by (simp add: parsePrediction_def includes_str_sublist WAGER_AMOUNT_def)

lemma answering_key: "truthy (OPENAI_API_KEY (answering reply))"
  by (simp add: answering_def worldWith_def truthy_def)

lemma answering_reply: "chatCompletion (answering reply) q = Inr (Some reply)"
  by (simp add: answering_def worldWith_def)

lemma lower_yes: "toLowerCase (trim ''Yes, things look good.'') = ''yes, things look good.''"
  by code_simp

lemma lower_no: "toLowerCase (trim ''No.'') = ''no.''"
  by code_simp

lemma lower_maybe: "toLowerCase (trim ''Maybe'') = ''maybe''"
  by code_simp

theorem getPrediction_parses_reply_witness:
  "truthy (OPENAI_API_KEY (answering ''Yes, things look good.''))
   \<and> chatCompletion (answering ''Yes, things look good.'') (Some ''Will it rain?'')
       = Inr (Some ''Yes, things look good.'')
   \<and> snd (getPrediction (answering ''Yes, things look good.'') (Some ''Will it rain?''))
       = Inr 1000000000000000000
   \<and> snd (getPrediction (answering ''No.'') (Some ''Will it rain?'')) = Inr 0
   \<and> snd (getPrediction (answering ''Maybe'') (Some ''Will it rain?''))
       = Inl (Error ''Couldn't parse a prediction'')"
proof -
  have y: "sublist ''yes'' ''yes, things look good.''" by code_simp
  have n: "\<not> sublist ''yes'' ''no.''" "sublist ''no'' ''no.''" by code_simp+
  have m: "\<not> sublist ''yes'' ''maybe''" "\<not> sublist ''no'' ''maybe''" by code_simp+
  from getPrediction_parses_reply [OF answering_key answering_reply,
          of "''Yes, things look good.''" "Some ''Will it rain?''"]
       getPrediction_parses_reply [OF answering_key answering_reply,
          of "''No.''" "Some ''Will it rain?''"]
       getPrediction_parses_reply [OF answering_key answering_reply,
          of "''Maybe''" "Some ''Will it rain?''"]
  show ?thesis
    by (simp add: answering_key answering_reply lower_yes lower_no lower_maybe y n m)
qed

text \<open>
  Claim C4. A reply that contains both "yes" and "no", case ignored, is classified as
  "yes": the predictor returns 10^18, since the test for "yes" comes first.
\<close>

theorem getPrediction_yes_before_no:
  assumes "truthy (OPENAI_API_KEY w)" and "chatCompletion w q = Inr (Some content)"
      and "sublist ''yes'' (toLowerCase content)" and "sublist ''no'' (toLowerCase content)"
  shows "snd (getPrediction w q) = Inr (10 ^ 18)"
  using getPrediction_answered [OF assms(1,2)] assms(3)
  by (simp add: parsePrediction_spec)

lemma lower_both:
  "toLowerCase ''No, definitely not - yes it could still happen''
     = ''no, definitely not - yes it could still happen''"
  by code_simp

theorem getPrediction_yes_before_no_witness:
  "sublist ''yes'' (toLowerCase ''No, definitely not - yes it could still happen'')
   \<and> sublist ''no'' (toLowerCase ''No, definitely not - yes it could still happen'')
   \<and> snd (getPrediction (answering ''No, definitely not - yes it could still happen'')
             (Some ''Will it rain?'')) = Inr 1000000000000000000"
proof -
  have y: "sublist ''yes'' (toLowerCase ''No, definitely not - yes it could still happen'')"
    unfolding lower_both by code_simp
  have n: "sublist ''no'' (toLowerCase ''No, definitely not - yes it could still happen'')"
    unfolding lower_both by code_simp
  from getPrediction_yes_before_no [OF answering_key answering_reply y n] y n
  show ?thesis by simp
qed

text \<open>
  Claim C5. Without a model credential (the variable unset or empty) the predictor
  returns the full unit 10^18 for every question, and its trace holds no chat
  completion: the only event is the console line that announces the default.
\<close>

theorem getPrediction_without_key:
  assumes "\<not> truthy (OPENAI_API_KEY w)"
  shows "snd (getPrediction w q) = Inr (10 ^ 18)
         \<and> list_all (\<lambda>e. \<not> isChatCompletion e) (fst (getPrediction w q))"
  using assms
  by (simp add: getPrediction_def andThen_def emit_def ret_def WAGER_AMOUNT_def)

theorem getPrediction_without_key_witness:
  "\<not> truthy (OPENAI_API_KEY (worldWith []))
   \<and> snd (getPrediction (worldWith []) (Some ''Will it rain?'')) = Inr 1000000000000000000
   \<and> list_all (\<lambda>e. \<not> isChatCompletion e)
        (fst (getPrediction (worldWith []) (Some ''Will it rain?'')))
   \<and> \<not> truthy (OPENAI_API_KEY ((answering ''No.'')\<lparr>OPENAI_API_KEY := Some []\<rparr>))
   \<and> snd (getPrediction ((answering ''No.'')\<lparr>OPENAI_API_KEY := Some []\<rparr>) None)
       = Inr 1000000000000000000"
proof -
  have a: "\<not> truthy (OPENAI_API_KEY (worldWith []))"
    by (simp add: worldWith_def truthy_def)
  have b: "\<not> truthy (OPENAI_API_KEY ((answering ''No.'')\<lparr>OPENAI_API_KEY := Some []\<rparr>))"
    by (simp add: truthy_def)
  from getPrediction_without_key [OF a, of "Some ''Will it rain?''"]
       getPrediction_without_key [OF b, of None] a b
  show ?thesis by simp
qed

text \<open>
  Claim C9. Whenever the predictor returns a value at all, the value is 0 or 10^18,
  whatever the environment, the question and the model's reply.
\<close>

theorem getPrediction_range:
  assumes "snd (getPrediction w q) = Inr v"
  shows "v = 0 \<or> v = 10 ^ 18"
proof (cases "truthy (OPENAI_API_KEY w)")
  case False
  then show ?thesis
    using assms by (simp add: getPrediction_def andThen_def emit_def ret_def WAGER_AMOUNT_def)
next
  case True
  show ?thesis
  proof (cases "chatCompletion w q")
    case (Inl e)
    then show ?thesis
      using assms True by (simp add: getPrediction_def andThen_def await_def)
  next
    case (Inr content)
    show ?thesis
    proof (cases content)
      case None
      then show ?thesis
        using assms True Inr
        by (simp add: getPrediction_def andThen_def await_def emit_def throw_def)
    next
      case (Some c)
      then have "parsePrediction c = Inr v"
        using assms getPrediction_answered [OF True] Inr by simp
      then show ?thesis
        by (simp add: parsePrediction_spec split: if_splits)
    qed
  qed
qed

theorem getPrediction_range_witness:
  "snd (getPrediction (answering ''No.'') (Some ''Will it rain?'')) = Inr 0
   \<and> ((0::int) = 0 \<or> (0::int) = 10 ^ 18)"
proof -
  have r: "snd (getPrediction (answering ''No.'') (Some ''Will it rain?'')) = Inr 0"
    using getPrediction_answered [OF answering_key answering_reply, of "''No.''"]
    by (simp add: parsePrediction_def lower_no)
  from getPrediction_range [OF r] r show ?thesis by simp
qed

section \<open>Decimal rendering and its parse\<close>

lemma natToString_small: "n < 10 \<Longrightarrow> natToString n = [digitChar n]"
  by (simp add: natToString.simps)

lemma natToString_big:
  "\<not> n < 10 \<Longrightarrow> natToString n = natToString (n div 10) @ [digitChar (n mod 10)]"
  by (subst natToString.simps) simp

lemma digit_cases: "d < 10 \<Longrightarrow> d \<in> {0, 1, 2, 3, 4, 5, 6, 7, 8, 9::nat}"
  by auto

lemma digitValue_digitChar: "d < 10 \<Longrightarrow> digitValue (digitChar d) = Some d"
  by (drule digit_cases) (auto simp: digitValue_def digitChar_def)

lemma digitChar_plain:
  "d < 10 \<Longrightarrow> \<not> isWhiteSpace (digitChar d) \<and> digitChar d \<notin> {CHR ''x'', CHR ''X'', CHR ''o'',
      CHR ''O'', CHR ''b'', CHR ''B'', CHR ''+'', CHR ''-''}"
  by (drule digit_cases) (auto simp: isWhiteSpace_def digitChar_def)

lemma parseDigits_append:
  "parseDigits r acc (xs @ ys) =
     (case parseDigits r acc xs of None \<Rightarrow> None | Some a \<Rightarrow> parseDigits r a ys)"
  by (induction xs arbitrary: acc) (auto split: option.splits)

lemma parseDigits_natToString:
  "parseDigits 10 0 (natToString n) = Some n"
proof (induction n rule: natToString.induct)
  case (1 n)
  show ?case
  proof (cases "n < 10")
    case True
    then show ?thesis
      by (simp add: natToString_small digitValue_digitChar)
  next
    case False
    then have "parseDigits 10 0 (natToString (n div 10)) = Some (n div 10)"
      using "1.IH" by simp
    then show ?thesis
      using False by (simp add: natToString_big parseDigits_append digitValue_digitChar)
  qed
qed

text \<open>The digits of a rendering: none is white space, a sign or a radix letter.\<close>

lemma natToString_digits:
  "natToString n \<noteq> [] \<and> (\<forall>c \<in> set (natToString n). \<exists>d < 10. c = digitChar d)"
proof (induction n rule: natToString.induct)
  case (1 n)
  show ?case
  proof (cases "n < 10")
    case True
    then show ?thesis by (auto simp: natToString_small)
  next
    case False
    then have "\<forall>c \<in> set (natToString (n div 10)). \<exists>d < 10. c = digitChar d"
      using "1.IH" by simp
    moreover have "\<exists>d < 10. digitChar (n mod 10) = digitChar d"
      by (rule exI [of _ "n mod 10"]) simp
    ultimately show ?thesis
      using False by (auto simp: natToString_big)
  qed
qed

lemma natToString_no_space:
  assumes "c \<in> set (natToString n)"
  shows "\<not> isWhiteSpace c"
proof -
  obtain d where "d < 10" "c = digitChar d"
    using natToString_digits [of n] assms by auto
  then show ?thesis using digitChar_plain by simp
qed

lemma dropWhile_hd_id: "xs \<noteq> [] \<Longrightarrow> \<not> P (hd xs) \<Longrightarrow> dropWhile P xs = xs"
  by (cases xs) auto

lemma trim_id:
  assumes "s \<noteq> []" and "\<not> isWhiteSpace (hd s)" and "\<not> isWhiteSpace (last s)"
  shows "trim s = s"
  using assms by (simp add: trim_def dropWhile_hd_id hd_rev)

lemma trim_natToString: "trim (natToString n) = natToString n"
proof (rule trim_id)
  show ne: "natToString n \<noteq> []" using natToString_digits by simp
  show "\<not> isWhiteSpace (hd (natToString n))"
    using ne natToString_no_space by (meson hd_in_set)
  show "\<not> isWhiteSpace (last (natToString n))"
    using ne natToString_no_space by (meson last_in_set)
qed

lemma trim_minus_natToString: "trim (CHR ''-'' # natToString n) = CHR ''-'' # natToString n"
proof (rule trim_id)
  have ne: "natToString n \<noteq> []" using natToString_digits by simp
  show "CHR ''-'' # natToString n \<noteq> []" by simp
  show "\<not> isWhiteSpace (hd (CHR ''-'' # natToString n))"
    by (simp add: isWhiteSpace_def)
  show "\<not> isWhiteSpace (last (CHR ''-'' # natToString n))"
    using ne natToString_no_space by (simp, meson last_in_set)
qed

lemma stringToBigInt_natToString: "stringToBigInt (natToString n) = Inr (int n)"
proof -
  obtain c cs where s: "natToString n = c # cs"
    using natToString_digits by (cases "natToString n") auto
  obtain d where d: "d < 10" "c = digitChar d"
    using natToString_digits [of n] s by auto
  have plain: "c \<noteq> CHR ''+''" "c \<noteq> CHR ''-''"
    using digitChar_plain [OF d(1)] d(2) by auto
  have radix: "cs \<noteq> [] \<Longrightarrow> hd cs \<notin> {CHR ''x'', CHR ''X'', CHR ''o'', CHR ''O'', CHR ''b'', CHR ''B''}"
  proof -
    assume "cs \<noteq> []"
    then have "hd cs \<in> set (natToString n)" using s by simp
    then obtain e where "e < 10" "hd cs = digitChar e"
      using natToString_digits [of n] by auto
    then show ?thesis using digitChar_plain by auto
  qed
  have "stringToBigInt (c # cs) = parseNat 10 (c # cs)"
    using plain radix by auto
  moreover have "parseNat 10 (natToString n) = Inr (int n)"
    using natToString_digits [of n] by (simp add: parseNat_def parseDigits_natToString)
  ultimately show ?thesis
    using s by simp
qed

lemma BigInt_toString: "BigInt (toString n) = Inr n"
proof (cases "n < 0")
  case False
  then show ?thesis
    by (simp add: BigInt_def toString_def trim_natToString stringToBigInt_natToString)
next
  case True
  have ne: "natToString (nat (- n)) \<noteq> []" using natToString_digits by simp
  have "stringToBigInt (CHR ''-'' # natToString (nat (- n)))
          = negated (parseNat 10 (natToString (nat (- n))))"
    by simp
  also have "\<dots> = Inr n"
    using True ne by (simp add: parseNat_def parseDigits_natToString negated_def)
  finally show ?thesis
    using True by (simp add: BigInt_def toString_def trim_minus_natToString)
qed

section \<open>Claims about the quoter\<close>

lemma natToString_unit: "natToString 1000000000000000000 = ''1000000000000000000''"
  by (simp add: natToString_small natToString_big digitChar_def)

lemma formatEther_unit: "formatEther 1000000000000000000 = ''1''"
  by (simp add: formatEther_def formatUnits_def natToString_unit)

lemma getQuote_events:
  "\<exists>es. fst (getQuote w a i p) = Fetch (quoterUrl a i p) # es"
  by (cases "fetch w (quoterUrl a i p)")
     (auto simp: getQuote_def Let_def andThen_def await_def emit_def throw_def
           split: sum.splits prod.splits)

text \<open>The expected price is the last parameter of the URL the quoter is asked with.\<close>

lemma getQuote_asks_with_expected_price:
  "\<exists>url es. fst (getQuote w a i p) = Fetch url # es
      \<and> suffix (''&expectedPrice='' @ expectedPriceDecimalString p) url"
proof -
  have "suffix (''&expectedPrice='' @ expectedPriceDecimalString p) (quoterUrl a i p)"
    unfolding quoterUrl_def by (simp only: suffix_def append_assoc [symmetric]) blast
  then show ?thesis
    using getQuote_events [of w a i p] by auto
qed

text \<open>
  Claim C6. The expected price is to be the sentinel "0.0000009" for the prediction 0 and
  the string "1.0" for the full unit 10^18, as the comment on line 127 says. For 0 the
  code gives the sentinel. For 10^18 it gives "1" and not "1.0": \<^verbatim>\<open>formatEther\<close>
  drops the trailing zeros of the fraction and writes no point before an empty fraction.
\<close>

theorem getQuote_expected_price:
  "expectedPriceDecimalString 0 = ''0.0000009''
   \<and> expectedPriceDecimalString 1000000000000000000 = ''1''
   \<and> expectedPriceDecimalString 1000000000000000000 \<noteq> ''1.0''"
  by (simp add: expectedPriceDecimalString_def formatEther_unit)

lemma getQuote_ok:
  assumes "fetch w (quoterUrl a i p) = Inr response" and "ok response"
      and "json response = Inr quote"
  shows "snd (getQuote w a i p) = BigInt (maxSize quote)"
  using assms by (simp add: getQuote_def Let_def andThen_def await_def)

text \<open>
  Claim C7, amended. From a successful quoter response whose \<^verbatim>\<open>maxSize\<close> is the
  decimal rendering of an integer, with a minus sign when it is negative, the quoter
  returns that integer as the position size: the value is signed.
\<close>

theorem getQuote_position_size:
  assumes "fetch w (quoterUrl a i p) = Inr response" and "ok response"
      and "json response = Inr quote" and "maxSize quote = toString n"
  shows "snd (getQuote w a i p) = Inr n"
  using getQuote_ok [OF assms(1-3)] assms(4) by (simp add: BigInt_toString)

lemma quoting_fetch:
  "fetch (quoting offered) url
     = Inr \<lparr>ok = True, status = 200, text_body = [], json = Inr \<lparr>maxSize = offered\<rparr>\<rparr>"
  by (simp add: quoting_def worldWith_def)

theorem getQuote_position_size_witness:
  "maxSize \<lparr>maxSize = ''500000000000000000''\<rparr> = toString 500000000000000000
   \<and> snd (getQuote (quoting ''500000000000000000'') (Some ''0xA'') 7 1000000000000000000)
       = Inr 500000000000000000"
proof -
  have t: "maxSize \<lparr>maxSize = ''500000000000000000''\<rparr> = toString 500000000000000000"
    by (simp add: toString_def natToString_small natToString_big digitChar_def)
  have k: "ok \<lparr>ok = True, status = 200, text_body = [],
               json = Inr \<lparr>maxSize = ''500000000000000000''\<rparr>\<rparr>"
    by simp
  have j: "json \<lparr>ok = True, status = 200, text_body = [],
                 json = Inr \<lparr>maxSize = ''500000000000000000''\<rparr>\<rparr>
             = Inr \<lparr>maxSize = ''500000000000000000''\<rparr>"
    by simp
  from getQuote_position_size [OF quoting_fetch k j t] t show ?thesis
    by simp
qed

text \<open>
  Claim C7 as stated fails on a signed field: \<^verbatim>\<open>{"maxSize": "-5"}\<close> yields the
  negative position size -5, not an unsigned magnitude.
\<close>

theorem getQuote_position_size_counterexample:
  "snd (getQuote (quoting ''-5'') (Some ''0xA'') 7 0) = Inr (- 5)"
proof -
  have k: "ok \<lparr>ok = True, status = 200, text_body = [], json = Inr \<lparr>maxSize = ''-5''\<rparr>\<rparr>"
    by simp
  have j: "json \<lparr>ok = True, status = 200, text_body = [], json = Inr \<lparr>maxSize = ''-5''\<rparr>\<rparr>
             = Inr \<lparr>maxSize = ''-5''\<rparr>"
    by simp
  have "BigInt ''-5'' = Inr (- 5)"
    by (simp add: BigInt_def trim_def isWhiteSpace_def parseNat_def digitValue_def
                  negated_def)
  then show ?thesis
    using getQuote_ok [OF quoting_fetch k j] by simp
qed

section \<open>Traces of composed steps\<close>

lemma fst_andThen:
  "fst (andThen m f) = (case snd m of Inl e \<Rightarrow> fst m | Inr x \<Rightarrow> fst m @ fst (f x))"
  by (cases m) (auto simp: andThen_def split: sum.splits prod.splits)

lemma snd_andThen:
  "snd (andThen m f) = (case snd m of Inl e \<Rightarrow> Inl e | Inr x \<Rightarrow> snd (f x))"
  by (cases m) (auto simp: andThen_def split: sum.splits prod.splits)

lemma offChain_andThen:
  assumes "list_all (\<lambda>e. \<not> onChain e) (fst m)"
      and "\<And>x. list_all (\<lambda>e. \<not> onChain e) (fst (f x))"
  shows "list_all (\<lambda>e. \<not> onChain e) (fst (andThen m f))"
  using assms by (simp add: fst_andThen split: sum.splits)

lemma offChain_fetchNextClosingMarket:
  "list_all (\<lambda>e. \<not> onChain e) (fst (fetchNextClosingMarket w))"
  unfolding fetchNextClosingMarket_def
  by (rule offChain_andThen) (simp_all add: await_def throw_def ret_def split: option.splits)

lemma offChain_getPrediction:
  "list_all (\<lambda>e. \<not> onChain e) (fst (getPrediction w q))"
  unfolding getPrediction_def
  by (auto intro!: offChain_andThen simp: await_def throw_def ret_def emit_def
           split: option.splits)

lemma offChain_getQuote:
  "list_all (\<lambda>e. \<not> onChain e) (fst (getQuote w a i p))"
  unfolding getQuote_def Let_def
  by (auto intro!: offChain_andThen simp: await_def throw_def emit_def)

lemma submitOrReport_without_key:
  "\<not> truthy (ETHEREUM_PRIVATE_KEY w) \<Longrightarrow>
   submitOrReport w a i s =
     ([ConsoleLog (''Trade Size: '' @ formatEther s),
       ConsoleLog ''Add an Ethereum private key to your .env file to submit trades.'',
       ConsoleLog []], Inr ())"
  by (simp add: submitOrReport_def emit_def)

lemma offChain_main:
  assumes "\<not> truthy (ETHEREUM_PRIVATE_KEY w)"
  shows "list_all (\<lambda>e. \<not> onChain e) (fst (main w))"
  unfolding main_def
  by (intro offChain_andThen offChain_fetchNextClosingMarket offChain_getPrediction
        offChain_getQuote)
     (simp_all add: emit_def throw_def ret_def submitOrReport_without_key [OF assms]
        split: option.splits)

lemma program_events:
  "set (program w) \<subseteq> set (fst (main w)) \<union> {ConsoleError (describe e) | e. True}"
  by (cases "main w") (auto simp: program_def split: sum.splits)

lemma main_prefix_program: "set (fst (main w)) \<subseteq> set (program w)"
  by (cases "main w") (auto simp: program_def split: sum.splits)

lemma main_reports_size:
  assumes "\<not> truthy (ETHEREUM_PRIVATE_KEY w)"
      and "snd (fetchNextClosingMarket w) = Inr mkt"
      and "snd (getPrediction w (question mkt)) = Inr prediction"
      and "marketGroup mkt = Some g"
      and "snd (getQuote w (ref_address g) (marketId mkt) prediction) = Inr positionSize"
  shows "ConsoleLog (''Trade Size: '' @ formatEther positionSize) \<in> set (fst (main w))"
  using assms(2-5)
  by (simp add: main_def fst_andThen snd_andThen emit_def ret_def
        submitOrReport_without_key [OF assms(1)])

text \<open>
  Claim C8. Without a signing credential (the variable unset or empty) nothing the
  program does is an on-chain call; once the market, the prediction and the quote are
  there, it prints the trade size; and \<^verbatim>\<open>trade\<close> called directly throws at once,
  before any event.
\<close>

theorem no_credential_no_trade:
  assumes "\<not> truthy (ETHEREUM_PRIVATE_KEY w)"
  shows "list_all (\<lambda>e. \<not> onChain e) (program w)
         \<and> trade w a i s
             = ([], Inl (Error ''Ethereum private key is not set in environment variables.''))
         \<and> (\<forall>mkt g prediction positionSize.
               snd (fetchNextClosingMarket w) = Inr mkt
               \<longrightarrow> snd (getPrediction w (question mkt)) = Inr prediction
               \<longrightarrow> marketGroup mkt = Some g
               \<longrightarrow> snd (getQuote w (ref_address g) (marketId mkt) prediction)
                     = Inr positionSize
               \<longrightarrow> ConsoleLog (''Trade Size: '' @ formatEther positionSize)
                     \<in> set (program w))"
proof -
  have "\<forall>e \<in> set (program w). \<not> onChain e"
    using program_events [of w] offChain_main [OF assms]
    by (auto simp: list_all_iff)
  then have quiet: "list_all (\<lambda>e. \<not> onChain e) (program w)"
    by (simp add: list_all_iff)
  have fast: "trade w a i s
      = ([], Inl (Error ''Ethereum private key is not set in environment variables.''))"
    using assms by (simp add: trade_def throw_def truthy_def split: option.splits)
  have "ConsoleLog (''Trade Size: '' @ formatEther positionSize) \<in> set (program w)"
    if "snd (fetchNextClosingMarket w) = Inr mkt"
      and "snd (getPrediction w (question mkt)) = Inr prediction"
      and "marketGroup mkt = Some g"
      and "snd (getQuote w (ref_address g) (marketId mkt) prediction) = Inr positionSize"
    for mkt g prediction positionSize
    using main_reports_size [OF assms that] main_prefix_program by blast
  with quiet fast show ?thesis by blast
qed

lemma formatEther_half: "formatEther 500000000000000000 = ''0.5''"
  by (simp add: formatEther_def formatUnits_def natToString_small natToString_big
        digitChar_def)

lemma toString_half: "toString 500000000000000000 = ''500000000000000000''"
  by (simp add: toString_def natToString_small natToString_big digitChar_def)

text \<open>
  A run without credentials on one public market: the default "yes", the quote of half a
  unit, the line "Trade Size: 0.5", and no on-chain event.
\<close>

theorem no_credential_no_trade_witness:
  "\<not> truthy (ETHEREUM_PRIVATE_KEY (worldWith [market 1 (Some 100) (Some True)]))
   \<and> list_all (\<lambda>e. \<not> onChain e) (program (worldWith [market 1 (Some 100) (Some True)]))
   \<and> trade (worldWith [market 1 (Some 100) (Some True)]) (Some ''0xA'') 1 500000000000000000
       = ([], Inl (Error ''Ethereum private key is not set in environment variables.''))
   \<and> ConsoleLog ''Trade Size: 0.5''
       \<in> set (program (worldWith [market 1 (Some 100) (Some True)]))"
proof -
  let ?w = "worldWith [market 1 (Some 100) (Some True)]"
  let ?m = "listed (market 1 (Some 100) (Some True))"
  have k: "\<not> truthy (ETHEREUM_PRIVATE_KEY ?w)"
    by (simp add: worldWith_def truthy_def)
  have f: "snd (fetchNextClosingMarket ?w) = Inr ?m"
    by (simp add: fetchNextClosingMarket_def andThen_def await_def throw_def ret_def
        nextMarket_def worldWith_def publicMarkets_def groupsOf_def groupMarkets_def
        isPublic_def market_def listed_def earlier_def)
  have p: "snd (getPrediction ?w (question ?m)) = Inr 1000000000000000000"
    by (simp add: getPrediction_def worldWith_def truthy_def andThen_def emit_def ret_def
        WAGER_AMOUNT_def)
  have g: "marketGroup ?m = Some (MarketGroupRef (Some ''0xA''))"
    by (simp add: listed_def)
  have r: "fetch ?w url = Inr \<lparr>ok = True, status = 200, text_body = [],
                                json = Inr \<lparr>maxSize = ''500000000000000000''\<rparr>\<rparr>" for url
    by (simp add: worldWith_def)
  have q: "snd (getQuote ?w (ref_address (MarketGroupRef (Some ''0xA''))) (marketId ?m)
                  1000000000000000000) = Inr 500000000000000000"
    using getQuote_ok [OF r, of "\<lparr>maxSize = ''500000000000000000''\<rparr>"]
          BigInt_toString [of 500000000000000000]
    by (simp add: toString_half)
  from no_credential_no_trade [OF k, of "Some ''0xA''" 1 500000000000000000] f p g q k
  show ?thesis
    by (auto simp: formatEther_half)
qed

end
